theory Spec2Isabelle
  imports Main
begin

section \<open>JavaScript strings\<close>

text \<open>
  A string is the list of its code units, for text whose code units lie below U+0100
  (ASCII and Latin-1), so that a \<open>char\<close> is the code unit of that number. On this range
  \<open>toLowerCase\<close> maps \<open>A\<close> to \<open>Z\<close> and the capital letters U+00C0 to U+00DE, except the
  sign U+00D7, to the letter 32 places further; \<open>trim\<close> strips the ASCII white space
  and the no-break space U+00A0. \<open>toUpperCase\<close> is only applied by \<open>newKey\<close>, to letters
  of a name that is already lower-cased; it maps \<open>a\<close> to \<open>z\<close> and U+00E0 to U+00FE,
  except U+00F7, to the letter 32 places before, and U+00DF to \<open>SS\<close>. The upper-case
  forms of U+00B5 and U+00FF lie outside the range and these two are left as they are.
\<close>

definition lower_char :: "char \<Rightarrow> char" where
  "lower_char c =
     (let n = (of_char c :: nat)
      in if (65 \<le> n \<and> n \<le> 90) \<or> (192 \<le> n \<and> n \<le> 222 \<and> n \<noteq> 215) then char_of (n + 32) else c)"

definition upper_char :: "char \<Rightarrow> string" where
  "upper_char c =
     (let n = (of_char c :: nat)
      in if (97 \<le> n \<and> n \<le> 122) \<or> (224 \<le> n \<and> n \<le> 254 \<and> n \<noteq> 247) then [char_of (n - 32)]
         else if n = 223 then ''SS'' else [c])"

definition toLowerCase :: "string \<Rightarrow> string" where
  "toLowerCase s = map lower_char s"

definition toUpperCase :: "string \<Rightarrow> string" where
  "toUpperCase s = concat (map upper_char s)"

definition is_space :: "char \<Rightarrow> bool" where
  "is_space c = (c \<in> set [CHR '' '', CHR 0x09, CHR 0x0A, CHR 0x0B, CHR 0x0C, CHR 0x0D, CHR 0xA0])"

definition trim :: "string \<Rightarrow> string" where
  "trim s = rev (dropWhile is_space (rev (dropWhile is_space s)))"

text \<open>\<open>s.split(c)\<close> for a one-character separator: never empty, \<open>''''.split(c) = ['''']\<close>.\<close>

fun split :: "char \<Rightarrow> string \<Rightarrow> string list" where
  "split c [] = [[]]"
| "split c (x # xs) =
     (if x = c then [] # split c xs
      else (case split c xs of [] \<Rightarrow> [[x]] | y # ys \<Rightarrow> (x # y) # ys))"

text \<open>\<open>s.indexOf(c)\<close>, with \<open>None\<close> for \<open>-1\<close>.\<close>

fun indexOf :: "char \<Rightarrow> string \<Rightarrow> nat option" where
  "indexOf c [] = None"
| "indexOf c (x # xs) =
     (if x = c then Some 0 else (case indexOf c xs of None \<Rightarrow> None | Some i \<Rightarrow> Some (Suc i)))"

definition startsWith :: "string \<Rightarrow> string \<Rightarrow> bool" where
  "startsWith s p = (take (length p) s = p)"

text \<open>\<open>s.includes(p)\<close>: \<open>p\<close> occurs somewhere in \<open>s\<close>.\<close>

fun includes_str :: "string \<Rightarrow> string \<Rightarrow> bool" where
  "includes_str [] p = (p = [])"
| "includes_str (x # xs) p = (startsWith (x # xs) p \<or> includes_str xs p)"

fun join :: "string \<Rightarrow> string list \<Rightarrow> string" where
  "join sep [] = []"
| "join sep [p] = p"
| "join sep (p # q # ps) = p @ sep @ join sep (q # ps)"

text \<open>Reading an array element, or a destructured position: \<open>None\<close> is \<open>undefined\<close>.\<close>

fun element :: "'a list \<Rightarrow> nat \<Rightarrow> 'a option" where
  "element [] i = None"
| "element (x # xs) 0 = Some x"
| "element (x # xs) (Suc i) = element xs i"

section \<open>Objects used as dictionaries\<close>

text \<open>
  A plain object \<open>{}\<close> is the list of its own properties in insertion order. Reading
  \<open>obj[k]\<close> also finds what every object inherits from \<open>Object.prototype\<close>, so
  \<open>obj[k] === undefined\<close> is false for those names even when \<open>obj\<close> has no own
  property \<open>k\<close>; and assigning a string to \<open>obj[''__proto__'']\<close> stores nothing.
\<close>

definition object_prototype_names :: "string list" where
  "object_prototype_names =
     [''constructor'', ''__defineGetter__'', ''__defineSetter__'', ''hasOwnProperty'',
      ''__lookupGetter__'', ''__lookupSetter__'', ''isPrototypeOf'', ''propertyIsEnumerable'',
      ''toString'', ''valueOf'', ''__proto__'', ''toLocaleString'']"

definition is_undefined :: "(string \<times> 'v) list \<Rightarrow> string \<Rightarrow> bool" where
  "is_undefined obj k = (map_of obj k = None \<and> k \<notin> set object_prototype_names)"

definition assign :: "(string \<times> 'v) list \<Rightarrow> string \<Rightarrow> 'v \<Rightarrow> (string \<times> 'v) list" where
  "assign obj k v =
     (if k = ''__proto__'' then obj
      else if map_of obj k = None then obj @ [(k, v)]
      else map (\<lambda>(k', v'). if k' = k then (k', v) else (k', v')) obj)"

section \<open>Decoding one notification field: \<open>toNotification\<close>\<close>

text \<open>
  What the code can throw: the \<open>TypeError\<close> of reading a property of \<open>undefined\<close>, an
  \<open>Error\<close> with one of the messages of the constants \<open>ERROR\<close> (named by the constant),
  the \<open>Error\<close> of the constructor for an argument that is neither options nor a node,
  and an error thrown by the crypto service, with its message.
\<close>

datatype as2_error =
    TypeError
  | DISPOSITION_NODE
  | FINAL_RECIPIENT_MISSING
  | CONTENT_VERIFY
  | ARGUMENT_ERROR
  | Thrown string

text \<open>
  The \<open>result\<close> object of each branch. A property that is never set, or that is set from
  a missing array position, is \<open>None\<close>. The properties \<open>value\<close> and \<open>type\<close> of a
  disposition are the fields \<open>disp_value\<close> and \<open>disp_type\<close>, those of a description
  \<open>desc_type\<close> and \<open>desc_text\<close>; an attribute is a text or the boolean \<open>true\<close>.
\<close>

datatype attribute = Text string | JsTrue

record description =
  desc_type :: string
  desc_text :: string

record disposition =
  disp_value :: "string option"
  disp_type :: "string option"
  processed :: "bool option"
  description :: "description option"
  attributes :: "(string \<times> attribute) list option"

datatype field =
    Verbatim string
  | Recipient (rvalue: string) (rtype: "string option")
  | Disposition disposition
  | Mic (mic: "string option") (algorithm: string)
  | Headers "(string \<times> string) list"

text \<open>The inner function \<open>newKey\<close>: a hyphenated header name in camel case.\<close>

fun capitalize_rest :: "string list \<Rightarrow> string list" where
  "capitalize_rest [] = []"
| "capitalize_rest (chars # rest) =
     (toUpperCase (take 1 chars) @ drop 1 (toLowerCase chars)) # capitalize_rest rest"

definition newKey :: "string \<Rightarrow> string" where
  "newKey str =
     (case split CHR ''-'' (toLowerCase str) of
        [] \<Rightarrow> []
      | chars # rest \<Rightarrow> concat (toLowerCase chars # capitalize_rest rest))"

text \<open>
  The body of the loop over the modifiers of a Disposition field (source lines 61 to 87):
  its local variables \<open>key\<close> and \<open>value\<close>, then the update of \<open>result\<close>.
\<close>

definition part_key :: "string \<Rightarrow> string" where
  "part_key part =
     (let index = (case indexOf CHR ''='' part of None \<Rightarrow> length part | Some i \<Rightarrow> i)
      in toLowerCase (trim (take index part)))"

definition part_value :: "string \<Rightarrow> string" where
  "part_value part =
     (let index = (case indexOf CHR ''='' part of None \<Rightarrow> length part | Some i \<Rightarrow> i)
      in trim (drop (index + 1) part))"

definition disposition_part :: "disposition \<Rightarrow> string \<Rightarrow> disposition" where
  "disposition_part result part =
     (let key = part_key part;
          val = part_value part
      in if startsWith key ''processed'' \<or> startsWith key ''failed'' then
           (let attrKey = element (split CHR ''/'' key) 0;
                attrProp = element (split CHR ''/'' key) 1;
                result1 = result\<lparr>processed := Some (attrKey = Some ''processed'')\<rparr>
            in (case attrProp of
                  None \<Rightarrow> result1
                | Some p \<Rightarrow> result1\<lparr>description := Some \<lparr>desc_type = toLowerCase p, desc_text = val\<rparr>\<rparr>))
         else
           (let attrs = (case attributes result of None \<Rightarrow> [] | Some a \<Rightarrow> a)
            in if is_undefined attrs key
               then result\<lparr>attributes := Some (assign attrs key (if val = [] then JsTrue else Text val))\<rparr>
               else result\<lparr>attributes := Some attrs\<rparr>))"

definition disposition_loop :: "disposition \<Rightarrow> string list \<Rightarrow> disposition" where
  "disposition_loop result parts = foldl disposition_part result parts"

definition toNotification :: "string \<Rightarrow> string \<Rightarrow> as2_error + (string \<times> field)" where
  "toNotification key val =
     (let parts = map trim (split CHR '';'' val);
          k = toLowerCase key
      in if k = ''reporting-ua'' \<or> k = ''mdn-gateway'' \<or> k = ''original-message-id'' then
           Inr (newKey key, Verbatim val)
         else if k = ''original-recipient'' \<or> k = ''final-recipient'' then
           Inr (newKey key, Recipient (join ''; '' (drop 1 parts)) (element parts 0))
         else if k = ''disposition'' then
           (let first = split CHR ''/'' (case element parts 0 of None \<Rightarrow> [] | Some p \<Rightarrow> p);
                result = \<lparr>disp_value = element first 1, disp_type = element first 0, processed = None,
                          description = None, attributes = None\<rparr>
            in Inr (newKey key, Disposition (disposition_loop result (drop 1 parts))))
         else if k = ''received-content-mic'' then
           (let vals = map trim (split CHR '','' val)
            in (case element vals 1 of
                  None \<Rightarrow> Inl TypeError
                | Some micalg \<Rightarrow> Inr (newKey key, Mic (element vals 0) (toLowerCase micalg))))
         else
           Inr (''headers'', Headers (assign [] key val)))"

section \<open>MIME nodes and the collaborators of the report\<close>

datatype as2_node =
  AS2MimeNode (contentType: string) (nodeMessageId: "string option")
    (headers: "(string \<times> string) list") (content: string) (childNodes: "as2_node list")

text \<open>
  Modelled from the spec: the class \<open>AS2MimeNode\<close> is not in src. Section 6 gives a node
  a content type, headers whose names are case-insensitive, a content and child parts;
  \<open>getHeader\<close> reads the first header of that name and \<open>None\<close> is \<open>undefined\<close>.
\<close>

fun getHeader :: "as2_node \<Rightarrow> string \<Rightarrow> string option" where
  "getHeader n name = map_of (map (\<lambda>(k, v). (toLowerCase k, v)) (headers n)) (toLowerCase name)"

text \<open>
  Modelled from the spec: the helper \<open>getReportNode\<close> is not in src. Section 3 has it
  locate the \<open>multipart/report\<close> subtree of a node tree, and section 6 gives that node
  the content type \<open>multipart/report; report-type=disposition-notification\<close>; here it
  is the first node in document order whose content type names both.
\<close>

definition is_report :: "as2_node \<Rightarrow> bool" where
  "is_report n =
     (includes_str (contentType n) ''multipart/report''
      \<and> includes_str (contentType n) ''disposition-notification'')"

fun getReportNode :: "as2_node \<Rightarrow> as2_node option"
  and getReportNodes :: "as2_node list \<Rightarrow> as2_node option" where
  "getReportNode (AS2MimeNode ct mid hs c cs) =
     (if is_report (AS2MimeNode ct mid hs c cs) then Some (AS2MimeNode ct mid hs c cs)
      else getReportNodes cs)"
| "getReportNodes [] = None"
| "getReportNodes (c # cs) =
     (case getReportNode c of Some r \<Rightarrow> Some r | None \<Rightarrow> getReportNodes cs)"

fun nodes_of :: "as2_node \<Rightarrow> as2_node list"
  and nodes_of_list :: "as2_node list \<Rightarrow> as2_node list" where
  "nodes_of (AS2MimeNode ct mid hs c cs) = AS2MimeNode ct mid hs c cs # nodes_of_list cs"
| "nodes_of_list [] = []"
| "nodes_of_list (c # cs) = nodes_of c @ nodes_of_list cs"

text \<open>
  Modelled from the spec: the class \<open>AS2DispositionNotification\<close> is not in src. Section 3
  makes it the structured content of one MDN; its constructor is taken to keep what it is
  given, either the plain object of the outgoing pipeline or the decoded fields of an
  incoming report.
\<close>

record notification_fields =
  finalRecipient :: "string option"
  disposition_of :: disposition

datatype as2_notification =
    Outgoing notification_fields
  | Incoming "(string \<times> field) list"

datatype notification_arg = Plain notification_fields | Instance as2_notification

datatype returned_arg = ReturnedNode as2_node | ReturnedBool bool

record disposition_options =
  opt_explanation :: "string option"
  opt_notification :: "notification_arg option"
  opt_returned :: "returned_arg option"

datatype constructor_arg = Node as2_node | Options disposition_options

record as2_disposition =
  messageId :: "string option"
  explanation :: "string option"
  notification :: "as2_notification option"
  returned :: "as2_node option"

text \<open>
  What src imports and does not define is a parameter: the header parser that calls
  \<open>toNotification\<close> on each field, the message-id generator, the text form of a
  notification, the constants \<open>EXPLANATION\<close>, and the crypto service, whose contract is
  section 4.2 of the spec: \<open>decrypt\<close> returns a node or throws (\<open>Inl\<close> the message of the
  error), \<open>verify\<close> returns a node, \<open>undefined\<close> (\<open>Inr None\<close>) or throws, \<open>sign\<close> returns
  a node.
\<close>

record helpers =
  parseHeaderString ::
    "string \<Rightarrow> (string \<Rightarrow> string \<Rightarrow> as2_error + (string \<times> field)) \<Rightarrow> as2_error + (string \<times> field) list"
  generateMessageId :: string
  notificationToString :: "as2_notification \<Rightarrow> string"

record explanations =
  SUCCESS :: string
  FAILED_DECRYPTION :: string
  FAILED_GENERALLY :: string
  FAILED_VERIFICATION :: string

record ('d, 'v, 's) crypto =
  decrypt :: "as2_node \<Rightarrow> 'd \<Rightarrow> string + as2_node"
  verify :: "as2_node \<Rightarrow> 'v \<Rightarrow> string + as2_node option"
  sign :: "as2_node \<Rightarrow> 's \<Rightarrow> as2_node"

datatype crypto_call = CallDecrypt | CallVerify | CallSign

section \<open>The class \<open>AS2Disposition\<close>\<close>

text \<open>The constructor (source lines 108 to 146); \<open>None\<close> is a call with no argument.\<close>

definition AS2Disposition_new :: "helpers \<Rightarrow> constructor_arg option \<Rightarrow> as2_error + as2_disposition" where
  "AS2Disposition_new H arg =
     (case arg of
        None \<Rightarrow> Inl TypeError
      | Some (Node mdn) \<Rightarrow>
          (case getReportNode mdn of
             None \<Rightarrow> Inr \<lparr>messageId = None, explanation = None, notification = None, returned = None\<rparr>
           | Some report \<Rightarrow>
               (case element (childNodes report) 0 of
                  None \<Rightarrow> Inl TypeError
                | Some first \<Rightarrow>
                    (case element (childNodes report) 1 of
                       None \<Rightarrow> Inl TypeError
                     | Some second \<Rightarrow>
                         (case parseHeaderString H (content second) toNotification of
                            Inl e \<Rightarrow> Inl e
                          | Inr decoded \<Rightarrow>
                              Inr \<lparr>messageId = nodeMessageId mdn,
                                   explanation = Some (trim (content first)),
                                   notification = Some (Incoming decoded),
                                   returned = element (childNodes report) 2\<rparr>))))
      | Some (Options opts) \<Rightarrow>
          (case (opt_explanation opts, opt_notification opts) of
             (Some (c # cs), Some n) \<Rightarrow>
               Inr \<lparr>messageId = Some (generateMessageId H),
                    explanation = Some (c # cs),
                    notification = Some (case n of Instance i \<Rightarrow> i | Plain f \<Rightarrow> Outgoing f),
                    returned = (case opt_returned opts of
                                  Some (ReturnedNode r) \<Rightarrow> Some r | _ \<Rightarrow> None)\<rparr>
           | _ \<Rightarrow> Inl ARGUMENT_ERROR))"

definition toMimeNode :: "helpers \<Rightarrow> as2_disposition \<Rightarrow> as2_error + as2_node" where
  "toMimeNode H d =
     (case notification d of
        None \<Rightarrow> Inl TypeError
      | Some n \<Rightarrow>
          Inr (AS2MimeNode ''multipart/report; report-type=disposition-notification'' (messageId d) []
                 []
                 ([AS2MimeNode ''text/plain'' None [] (case explanation d of None \<Rightarrow> [] | Some e \<Rightarrow> e) [],
                   AS2MimeNode ''message/disposition-notification'' None [] (notificationToString H n) []]
                  @ (case returned d of None \<Rightarrow> [] | Some r \<Rightarrow> [r]))))"

text \<open>The options of \<open>outgoing\<close>; an option that is left out is \<open>None\<close>, or false for the flag.\<close>

record ('d, 'v, 's) outgoing_options =
  node :: "as2_node option"
  returnNode :: bool
  signDisposition :: "'s option"
  signed :: "'v option"
  encrypted :: "'d option"

text \<open>The local variables of \<open>outgoing\<close> that its steps update.\<close>

record outgoing_state =
  st_notification :: notification_fields
  st_explanation :: string
  errored :: bool

definition record_failure :: "outgoing_state \<Rightarrow> string \<Rightarrow> string \<Rightarrow> outgoing_state" where
  "record_failure st message expl =
     st\<lparr>errored := True,
        st_notification := (st_notification st)
          \<lparr>disposition_of := (disposition_of (st_notification st))
             \<lparr>processed := Some False,
              description := Some \<lparr>desc_type = ''failure'', desc_text = message\<rparr>\<rparr>\<rparr>,
        st_explanation := expl\<rparr>"

text \<open>
  \<open>outgoing\<close> up to the construction of the report (source lines 189 to 250), with the
  crypto calls it made, in order.
\<close>

definition outgoing_disposition ::
  "('d, 'v, 's) crypto \<Rightarrow> explanations \<Rightarrow> helpers \<Rightarrow> ('d, 'v, 's) outgoing_options
     \<Rightarrow> (as2_error + as2_disposition) \<times> crypto_call list" where
  "outgoing_disposition C E H options =
     (case node options of
        None \<Rightarrow> (Inl DISPOSITION_NODE, [])
      | Some n \<Rightarrow>
          (case getHeader n ''As2-To'' of
             None \<Rightarrow> (Inl FINAL_RECIPIENT_MISSING, [])
           | Some recipient \<Rightarrow>
               (let st0 = \<lparr>st_notification =
                             \<lparr>finalRecipient = Some recipient,
                              disposition_of =
                                \<lparr>disp_value = None, disp_type = Some ''automatic-action'',
                                 processed = Some True, description = None, attributes = None\<rparr>\<rparr>,
                           st_explanation = SUCCESS E, errored = False\<rparr>;
                    (root1, st1, calls1) =
                      (case encrypted options of
                         None \<Rightarrow> (n, st0, [])
                       | Some enc \<Rightarrow>
                           (case decrypt C n enc of
                              Inr decrypted \<Rightarrow> (decrypted, st0, [CallDecrypt])
                            | Inl message \<Rightarrow>
                                (n, record_failure st0 message (FAILED_DECRYPTION E), [CallDecrypt])));
                    (st3, calls3) =
                      (case signed options of
                         None \<Rightarrow> (st1, calls1)
                       | Some sg \<Rightarrow>
                           if errored st1 then (st1, calls1)
                           else
                             (let (root2, st2) =
                                    (case verify C root1 sg of
                                       Inr verified \<Rightarrow> (verified, st1)
                                     | Inl message \<Rightarrow>
                                         (Some root1, record_failure st1 message (FAILED_GENERALLY E)))
                              in if root2 = None \<and> \<not> errored st2
                                 then (record_failure st2 ''Could not verify signature''
                                         (FAILED_VERIFICATION E), calls1 @ [CallVerify])
                                 else (st2, calls1 @ [CallVerify])))
                in (AS2Disposition_new H
                      (Some (Options
                         \<lparr>opt_explanation = Some (st_explanation st3),
                          opt_notification = Some (Plain (st_notification st3)),
                          opt_returned = (if returnNode options then Some (ReturnedNode n) else None)\<rparr>)),
                    calls3))))"

definition outgoing ::
  "('d, 'v, 's) crypto \<Rightarrow> explanations \<Rightarrow> helpers \<Rightarrow> ('d, 'v, 's) outgoing_options
     \<Rightarrow> (as2_error + as2_node) \<times> crypto_call list" where
  "outgoing C E H options =
     (case outgoing_disposition C E H options of
        (Inl e, calls) \<Rightarrow> (Inl e, calls)
      | (Inr mdn, calls) \<Rightarrow>
          (case toMimeNode H mdn of
             Inl e \<Rightarrow> (Inl e, calls)
           | Inr report \<Rightarrow>
               (case signDisposition options of
                  None \<Rightarrow> (Inr report, calls)
                | Some so \<Rightarrow> (Inr (sign C report so), calls @ [CallSign]))))"

definition incoming ::
  "('d, 'v, 's) crypto \<Rightarrow> helpers \<Rightarrow> as2_node option \<Rightarrow> 'v option
     \<Rightarrow> (as2_error + as2_disposition) \<times> crypto_call list" where
  "incoming C H n sg =
     (case n of
        None \<Rightarrow> (Inl DISPOSITION_NODE, [])
      | Some nd \<Rightarrow>
          (case sg of
             None \<Rightarrow> (AS2Disposition_new H (Some (Node nd)), [])
           | Some opts \<Rightarrow>
               (case verify C nd opts of
                  Inl message \<Rightarrow> (Inl (Thrown message), [CallVerify])
                | Inr None \<Rightarrow> (Inl CONTENT_VERIFY, [CallVerify])
                | Inr (Some rootNode) \<Rightarrow> (AS2Disposition_new H (Some (Node rootNode)), [CallVerify]))))"

section \<open>A small instance of the collaborators\<close>

text \<open>
  Concrete collaborators on which the theorems below are exercised: a decryption that
  succeeds with the right key only, a verification that confirms, stays inconclusive or
  rejects malformed input, a signing that wraps the node, and a header parser that decodes
  one field per line and stops at the first field that fails.
\<close>

datatype verification = Valid | Inconclusive | Malformed

definition example_crypto :: "(bool, verification, unit) crypto" where
  "example_crypto =
     \<lparr>decrypt = (\<lambda>n right_key. if right_key then Inr n else Inl ''wrong key''),
      verify = (\<lambda>n v. case v of Valid \<Rightarrow> Inr (Some n) | Inconclusive \<Rightarrow> Inr None
                               | Malformed \<Rightarrow> Inl ''malformed signature''),
      sign = (\<lambda>n so. AS2MimeNode ''multipart/signed'' None [] [] [n])\<rparr>"

definition example_explanations :: explanations where
  "example_explanations =
     \<lparr>SUCCESS = ''processed'', FAILED_DECRYPTION = ''decryption failed'',
      FAILED_GENERALLY = ''processing failed'', FAILED_VERIFICATION = ''verification failed''\<rparr>"

fun decode_lines ::
  "string list \<Rightarrow> (string \<Rightarrow> string \<Rightarrow> as2_error + (string \<times> field)) \<Rightarrow> as2_error + (string \<times> field) list" where
  "decode_lines [] f = Inr []"
| "decode_lines (l # ls) f =
     (let index = (case indexOf CHR '':'' l of None \<Rightarrow> length l | Some i \<Rightarrow> i)
      in case f (trim (take index l)) (trim (drop (index + 1) l)) of
           Inl e \<Rightarrow> Inl e
         | Inr kv \<Rightarrow> (case decode_lines ls f of Inl e \<Rightarrow> Inl e | Inr kvs \<Rightarrow> Inr (kv # kvs)))"

definition example_helpers :: helpers where
  "example_helpers =
     \<lparr>parseHeaderString = (\<lambda>body f. decode_lines (split CHR 0x0A body) f),
      generateMessageId = ''<1@example>'',
      notificationToString = (\<lambda>n. ''Disposition: automatic-action/MDN-sent-automatically'')\<rparr>"

definition example_message :: as2_node where
  "example_message = AS2MimeNode ''application/edi-x12'' (Some ''<0@example>'') [(''AS2-To'', ''receiver'')] ''ISA'' []"

definition example_unaddressed :: as2_node where
  "example_unaddressed = AS2MimeNode ''application/edi-x12'' (Some ''<0@example>'') [(''AS2-From'', ''sender'')] ''ISA'' []"

definition example_options :: "bool option \<Rightarrow> verification option \<Rightarrow> (bool, verification, unit) outgoing_options" where
  "example_options enc sg =
     \<lparr>node = Some example_message, returnNode = False, signDisposition = Some (),
      signed = sg, encrypted = enc\<rparr>"

section \<open>The words of the field grammar\<close>

text \<open>The field names that \<open>toNotification\<close> recognises, as its \<open>case\<close> labels list them.\<close>

definition recognized_fields :: "string list" where
  "recognized_fields =
     [''reporting-ua'', ''mdn-gateway'', ''original-message-id'', ''original-recipient'',
      ''final-recipient'', ''disposition'', ''received-content-mic'']"

text \<open>
  A modifier that reports the processing status, by a name that starts with \<open>processed\<close>
  or \<open>failed\<close>; every other modifier is an attribute, whose value is its text after
  \<open>=\<close>, or \<open>true\<close> when there is none.
\<close>

definition is_status_part :: "string \<Rightarrow> bool" where
  "is_status_part part =
     (startsWith (part_key part) ''processed'' \<or> startsWith (part_key part) ''failed'')"

definition attribute_value :: "string \<Rightarrow> attribute" where
  "attribute_value part = (if part_value part = [] then JsTrue else Text (part_value part))"

definition attributes_list :: "disposition \<Rightarrow> (string \<times> attribute) list" where
  "attributes_list d = (case attributes d of None \<Rightarrow> [] | Some a \<Rightarrow> a)"

text \<open>The attributes among the modifiers, each with its name and value, in order.\<close>

definition attribute_parts :: "string list \<Rightarrow> (string \<times> attribute) list" where
  "attribute_parts parts =
     map (\<lambda>p. (part_key p, attribute_value p)) (filter (\<lambda>p. \<not> is_status_part p) parts)"


section \<open>The report of a failed step\<close>

text \<open>
  The report the spec describes for a failure of the security pipeline: not processed, a
  description of type \<open>failure\<close> carrying the message, and the given explanation.
\<close>

definition failed_disposition ::
  "helpers \<Rightarrow> string \<Rightarrow> string \<Rightarrow> string \<Rightarrow> as2_node option \<Rightarrow> as2_disposition" where
  "failed_disposition H recipient message expl ret =
     \<lparr>messageId = Some (generateMessageId H),
      explanation = Some expl,
      notification = Some (Outgoing
        \<lparr>finalRecipient = Some recipient,
         disposition_of =
           \<lparr>disp_value = None, disp_type = Some ''automatic-action'', processed = Some False,
            description = Some \<lparr>desc_type = ''failure'', desc_text = message\<rparr>,
            attributes = None\<rparr>\<rparr>),
      returned = ret\<rparr>"

section \<open>The pipelines: configuration errors and recorded failures\<close>

lemma getHeader_example_message: "getHeader example_message ''As2-To'' = Some ''receiver''"
  by code_simp

lemma getHeader_example_unaddressed: "getHeader example_unaddressed ''As2-To'' = None"
  by code_simp

text \<open>
  C3. \<open>outgoing\<close> called without a node fails with the error \<open>DISPOSITION_NODE\<close>, and
  called with a node that has no \<open>As2-To\<close> header it fails with the error
  \<open>FINAL_RECIPIENT_MISSING\<close>; in both cases no crypto call has been made, whatever
  decryption, verification and signing options were given.
\<close>

theorem outgoing_configuration_errors:
  "(node options = None \<longrightarrow> outgoing C E H options = (Inl DISPOSITION_NODE, []))
   \<and> (node options = Some n \<and> getHeader n ''As2-To'' = None
        \<longrightarrow> outgoing C E H options = (Inl FINAL_RECIPIENT_MISSING, []))"
  by (simp add: outgoing_def outgoing_disposition_def)

theorem outgoing_configuration_errors_witness:
  "outgoing example_crypto example_explanations example_helpers
     \<lparr>node = None, returnNode = True, signDisposition = Some (), signed = Some Valid,
      encrypted = Some True\<rparr> = (Inl DISPOSITION_NODE, [])
   \<and> getHeader example_unaddressed ''As2-To'' = None
   \<and> outgoing example_crypto example_explanations example_helpers
     \<lparr>node = Some example_unaddressed, returnNode = True, signDisposition = Some (),
      signed = Some Valid, encrypted = Some True\<rparr> = (Inl FINAL_RECIPIENT_MISSING, [])"
  using outgoing_configuration_errors [where C = example_crypto and E = example_explanations
      and H = example_helpers and options =
      "\<lparr>node = None, returnNode = True, signDisposition = Some (), signed = Some Valid,
        encrypted = Some True\<rparr>"]
    outgoing_configuration_errors [where C = example_crypto and E = example_explanations
      and H = example_helpers and n = example_unaddressed and options =
      "\<lparr>node = Some example_unaddressed, returnNode = True, signDisposition = Some (),
        signed = Some Valid, encrypted = Some True\<rparr>"]
    getHeader_example_unaddressed
  by simp

text \<open>
  C6. \<open>incoming\<close> called with a node and verification options, where \<open>verify\<close> returns
  \<open>undefined\<close>, fails with the error \<open>CONTENT_VERIFY\<close>: no report is constructed.
\<close>

theorem incoming_unverified_fails:
  "verify C n sg = Inr None \<Longrightarrow> incoming C H (Some n) (Some sg) = (Inl CONTENT_VERIFY, [CallVerify])"
  by (simp add: incoming_def)

theorem incoming_unverified_fails_witness:
  "verify example_crypto example_message Inconclusive = Inr None
   \<and> incoming example_crypto example_helpers (Some example_message) (Some Inconclusive)
       = (Inl CONTENT_VERIFY, [CallVerify])"
proof -
  have v: "verify example_crypto example_message Inconclusive = Inr None"
    by (simp add: example_crypto_def)
  from incoming_unverified_fails [OF v, of example_helpers] v show ?thesis by simp
qed

lemma AS2Disposition_new_plain:
  "e \<noteq> [] \<Longrightarrow>
   AS2Disposition_new H (Some (Options
     \<lparr>opt_explanation = Some e, opt_notification = Some (Plain f), opt_returned = r\<rparr>)) =
   Inr \<lparr>messageId = Some (generateMessageId H), explanation = Some e,
        notification = Some (Outgoing f),
        returned = (case r of Some (ReturnedNode x) \<Rightarrow> Some x | _ \<Rightarrow> None)\<rparr>"
  by (cases e) (simp_all add: AS2Disposition_new_def)

lemma outgoing_of_disposition:
  assumes "outgoing_disposition C E H options = (Inr mdn, calls)"
    and "notification mdn = Some nt"
  shows "\<exists>report. toMimeNode H mdn = Inr report
           \<and> outgoing C E H options =
               (case signDisposition options of
                  None \<Rightarrow> (Inr report, calls)
                | Some so \<Rightarrow> (Inr (sign C report so), calls @ [CallSign]))"
  using assms by (simp add: outgoing_def toMimeNode_def split: option.splits)

lemma outgoing_disposition_decrypt_failure:
  assumes "node options = Some n" and "getHeader n ''As2-To'' = Some recipient"
    and "encrypted options = Some enc" and "decrypt C n enc = Inl message"
    and "FAILED_DECRYPTION E \<noteq> []"
  shows "outgoing_disposition C E H options =
           (Inr (failed_disposition H recipient message (FAILED_DECRYPTION E)
                   (if returnNode options then Some n else None)), [CallDecrypt])"
  using assms
  by (cases "FAILED_DECRYPTION E"; cases "signed options")
     (simp_all add: outgoing_disposition_def record_failure_def AS2Disposition_new_def Let_def
        failed_disposition_def)

text \<open>
  C1. With a node, its \<open>As2-To\<close> header and decryption options for which \<open>decrypt\<close>
  throws, \<open>outgoing\<close> returns a node and does not throw: the only crypto call before the
  optional signing of the report is the decryption, so verification is skipped whether or
  not signing options for the message were given, and the report that is turned into the
  returned node is not processed, has a description of type \<open>failure\<close> with the message
  of the error, and the explanation \<open>FAILED_DECRYPTION\<close>. The constant is taken to be a
  non-empty text, as the constructor of the report rejects an empty explanation.
\<close>

theorem outgoing_decrypt_failure:
  assumes "node options = Some n" and "getHeader n ''As2-To'' = Some recipient"
    and "encrypted options = Some enc" and "decrypt C n enc = Inl message"
    and "FAILED_DECRYPTION E \<noteq> []"
  shows "outgoing_disposition C E H options =
           (Inr (failed_disposition H recipient message (FAILED_DECRYPTION E)
                   (if returnNode options then Some n else None)), [CallDecrypt])
         \<and> (\<exists>report.
               toMimeNode H (failed_disposition H recipient message (FAILED_DECRYPTION E)
                   (if returnNode options then Some n else None)) = Inr report
               \<and> outgoing C E H options =
                   (case signDisposition options of
                      None \<Rightarrow> (Inr report, [CallDecrypt])
                    | Some so \<Rightarrow> (Inr (sign C report so), [CallDecrypt, CallSign])))
         \<and> CallVerify \<notin> set (snd (outgoing C E H options))"
proof -
  let ?mdn = "failed_disposition H recipient message (FAILED_DECRYPTION E)
                (if returnNode options then Some n else None)"
  have d: "outgoing_disposition C E H options = (Inr ?mdn, [CallDecrypt])"
    using assms by (rule outgoing_disposition_decrypt_failure)
  have "notification ?mdn = Some (Outgoing
        \<lparr>finalRecipient = Some recipient,
         disposition_of =
           \<lparr>disp_value = None, disp_type = Some ''automatic-action'', processed = Some False,
            description = Some \<lparr>desc_type = ''failure'', desc_text = message\<rparr>,
            attributes = None\<rparr>\<rparr>)"
    by (simp add: failed_disposition_def)
  from outgoing_of_disposition [OF d this]
  obtain report where r: "toMimeNode H ?mdn = Inr report"
    and o: "outgoing C E H options =
               (case signDisposition options of
                  None \<Rightarrow> (Inr report, [CallDecrypt])
                | Some so \<Rightarrow> (Inr (sign C report so), [CallDecrypt] @ [CallSign]))"
    by blast
  from o have "CallVerify \<notin> set (snd (outgoing C E H options))"
    by (simp split: option.splits)
  moreover have "[CallDecrypt] @ [CallSign] = [CallDecrypt, CallSign]" by simp
  ultimately show ?thesis using d r o by (auto split: option.splits)
qed

theorem outgoing_decrypt_failure_witness:
  "node (example_options (Some False) (Some Valid)) = Some example_message
   \<and> getHeader example_message ''As2-To'' = Some ''receiver''
   \<and> encrypted (example_options (Some False) (Some Valid)) = Some False
   \<and> decrypt example_crypto example_message False = Inl ''wrong key''
   \<and> FAILED_DECRYPTION example_explanations \<noteq> []
   \<and> outgoing_disposition example_crypto example_explanations example_helpers
         (example_options (Some False) (Some Valid))
       = (Inr (failed_disposition example_helpers ''receiver'' ''wrong key'' ''decryption failed'' None),
          [CallDecrypt])
   \<and> CallVerify \<notin> set (snd (outgoing example_crypto example_explanations example_helpers
         (example_options (Some False) (Some Valid))))"
proof -
  have h1: "node (example_options (Some False) (Some Valid)) = Some example_message"
    and h3: "encrypted (example_options (Some False) (Some Valid)) = Some False"
    and h6: "\<not> returnNode (example_options (Some False) (Some Valid))"
    by (simp_all add: example_options_def)
  have h4: "decrypt example_crypto example_message False = Inl ''wrong key''"
    by (simp add: example_crypto_def)
  have h5: "FAILED_DECRYPTION example_explanations \<noteq> []"
    and h7: "FAILED_DECRYPTION example_explanations = ''decryption failed''"
    by (simp_all add: example_explanations_def)
  from outgoing_decrypt_failure [OF h1 getHeader_example_message h3 h4 h5, of example_helpers]
    h1 getHeader_example_message h3 h4 h5 h6 h7
  show ?thesis by simp
qed

lemma outgoing_disposition_verify_failure:
  assumes "node options = Some n" and "getHeader n ''As2-To'' = Some recipient"
    and "signed options = Some sg"
    and "case encrypted options of None \<Rightarrow> root = n | Some enc \<Rightarrow> decrypt C n enc = Inr root"
    and "expl \<noteq> []"
    and "verify C root sg = Inl message \<and> expl = FAILED_GENERALLY E
         \<or> verify C root sg = Inr None \<and> message = ''Could not verify signature''
             \<and> expl = FAILED_VERIFICATION E"
  shows "fst (outgoing_disposition C E H options) =
           Inr (failed_disposition H recipient message expl
                  (if returnNode options then Some n else None))
         \<and> snd (outgoing_disposition C E H options) =
             (case encrypted options of None \<Rightarrow> [] | Some enc \<Rightarrow> [CallDecrypt]) @ [CallVerify]"
  using assms
  by (cases "encrypted options")
     (auto simp add: outgoing_disposition_def record_failure_def AS2Disposition_new_plain Let_def
        failed_disposition_def)

text \<open>
  C2. With a node, its \<open>As2-To\<close> header and verification options, when the decryption
  step recorded no error (there were no decryption options, or \<open>decrypt\<close> returned the
  node \<open>root\<close>): if \<open>verify\<close> throws, the report is not processed, has a description of
  type \<open>failure\<close> with the message of the error, and the explanation \<open>FAILED_GENERALLY\<close>;
  if \<open>verify\<close> returns \<open>undefined\<close>, the report is not processed, has a description of
  type \<open>failure\<close> with the text \<open>Could not verify signature\<close>, and the explanation
  \<open>FAILED_VERIFICATION\<close>. In both cases \<open>outgoing\<close> returns the MIME form of that
  report. Each constant is taken to be a non-empty text.
\<close>

theorem outgoing_verify_failure:
  assumes "node options = Some n" and "getHeader n ''As2-To'' = Some recipient"
    and "signed options = Some sg"
    and "case encrypted options of None \<Rightarrow> root = n | Some enc \<Rightarrow> decrypt C n enc = Inr root"
  shows "(verify C root sg = Inl message \<and> FAILED_GENERALLY E \<noteq> [] \<longrightarrow>
            fst (outgoing_disposition C E H options) =
              Inr (failed_disposition H recipient message (FAILED_GENERALLY E)
                     (if returnNode options then Some n else None))
            \<and> (\<exists>report. fst (outgoing C E H options) = Inr report))
         \<and> (verify C root sg = Inr None \<and> FAILED_VERIFICATION E \<noteq> [] \<longrightarrow>
            fst (outgoing_disposition C E H options) =
              Inr (failed_disposition H recipient ''Could not verify signature''
                     (FAILED_VERIFICATION E) (if returnNode options then Some n else None))
            \<and> (\<exists>report. fst (outgoing C E H options) = Inr report))"
proof -
  have returns: "\<exists>report. fst (outgoing C E H options) = Inr report"
    if "fst (outgoing_disposition C E H options) = Inr (failed_disposition H recipient m e r)"
    for m e r
  proof -
    from that obtain calls where
      d: "outgoing_disposition C E H options = (Inr (failed_disposition H recipient m e r), calls)"
      by (cases "outgoing_disposition C E H options") simp
    have "notification (failed_disposition H recipient m e r) =
            Some (Outgoing
              \<lparr>finalRecipient = Some recipient,
               disposition_of =
                 \<lparr>disp_value = None, disp_type = Some ''automatic-action'', processed = Some False,
                  description = Some \<lparr>desc_type = ''failure'', desc_text = m\<rparr>,
                  attributes = None\<rparr>\<rparr>)"
      by (simp add: failed_disposition_def)
    from outgoing_of_disposition [OF d this] show ?thesis
      by (auto split: option.splits)
  qed
  show ?thesis
    using outgoing_disposition_verify_failure [OF assms, of "FAILED_GENERALLY E" message E H]
      outgoing_disposition_verify_failure [OF assms, of "FAILED_VERIFICATION E"
        "''Could not verify signature''" E H]
      returns
    by blast
qed

theorem outgoing_verify_failure_witness:
  "verify example_crypto example_message Malformed = Inl ''malformed signature''
   \<and> verify example_crypto example_message Inconclusive = Inr None
   \<and> fst (outgoing_disposition example_crypto example_explanations example_helpers
         (example_options (Some True) (Some Malformed)))
       = Inr (failed_disposition example_helpers ''receiver'' ''malformed signature''
                ''processing failed'' None)
   \<and> fst (outgoing_disposition example_crypto example_explanations example_helpers
         (example_options None (Some Inconclusive)))
       = Inr (failed_disposition example_helpers ''receiver'' ''Could not verify signature''
                ''verification failed'' None)"
proof -
  have a1: "node (example_options enc sg) = Some example_message"
    and a3: "signed (example_options enc (Some v)) = Some v"
    and a6: "\<not> returnNode (example_options enc sg)" for enc sg v
    by (simp_all add: example_options_def)
  have a4: "case encrypted (example_options (Some True) (Some Malformed)) of
              None \<Rightarrow> example_message = example_message
            | Some enc \<Rightarrow> decrypt example_crypto example_message enc = Inr example_message"
    and a5: "case encrypted (example_options None (Some Inconclusive)) of
              None \<Rightarrow> example_message = example_message
            | Some enc \<Rightarrow> decrypt example_crypto example_message enc = Inr example_message"
    by (simp_all add: example_options_def example_crypto_def)
  have v1: "verify example_crypto example_message Malformed = Inl ''malformed signature''"
    and v2: "verify example_crypto example_message Inconclusive = Inr None"
    by (simp_all add: example_crypto_def)
  have e: "FAILED_GENERALLY example_explanations = ''processing failed''"
    "FAILED_VERIFICATION example_explanations = ''verification failed''"
    by (simp_all add: example_explanations_def)
  from outgoing_verify_failure [OF a1 getHeader_example_message a3 a4,
      of "''malformed signature''" example_explanations example_helpers]
    outgoing_verify_failure [OF a1 getHeader_example_message a3 a5,
      of "''malformed signature''" example_explanations example_helpers]
    v1 v2 e a6
  show ?thesis by simp
qed

section \<open>Strings: basic facts\<close>

lemma lower_char_idem: "lower_char (lower_char c) = lower_char c"
  by (auto simp add: lower_char_def Let_def)

lemma toLowerCase_idem: "toLowerCase (toLowerCase s) = toLowerCase s"
  by (simp add: toLowerCase_def lower_char_idem)

lemma newKey_toLowerCase: "newKey key = newKey (toLowerCase key)"
  by (simp add: newKey_def toLowerCase_idem)

lemma newKey_disposition: "newKey ''disposition'' = ''disposition''"
  by code_simp

lemma split_not_Nil: "split c s \<noteq> []"
  by (induction s) (auto split: list.splits)

lemma split_no_separator: "c \<notin> set s \<Longrightarrow> split c s = [s]"
  by (induction s) auto

lemma split_at_first: "c \<notin> set a \<Longrightarrow> split c (a @ c # b) = a # split c b"
  by (induction a) auto

lemma split_takeWhile: "element (split c s) 0 = Some (takeWhile (\<lambda>x. x \<noteq> c) s)"
  by (induction s) (auto split: list.splits)

lemma indexOf_none: "c \<notin> set s \<Longrightarrow> indexOf c s = None"
  by (induction s) auto

lemma indexOf_first: "c \<notin> set a \<Longrightarrow> indexOf c (a @ c # b) = Some (length a)"
  by (induction a) auto

lemma trim_spaces: "\<forall>x \<in> set ws. is_space x \<Longrightarrow> trim ws = []"
proof -
  assume "\<forall>x \<in> set ws. is_space x"
  then have d: "dropWhile is_space ws = []" by (induction ws) auto
  show ?thesis by (simp only: trim_def d rev.simps dropWhile.simps)
qed

lemma trim_before_spaces:
  assumes "\<not> is_space c" and "\<forall>x \<in> set ws. is_space x"
  shows "trim (a @ c # ws) = dropWhile is_space a @ [c]"
proof -
  have 1: "dropWhile is_space (a @ c # ws) = dropWhile is_space a @ c # ws"
    using assms(1) by (rule dropWhile_append3)
  have 2: "dropWhile is_space (rev ws @ c # rev (dropWhile is_space a)) = c # rev (dropWhile is_space a)"
    using assms by (subst dropWhile_append2) simp_all
  show ?thesis
    unfolding trim_def 1 using 2 by simp
qed

lemma trim_dropWhile: "trim (dropWhile is_space a) = trim a"
  by (simp add: trim_def)

lemma trim_idem: "trim (trim s) = trim s"
proof (cases "dropWhile is_space s")
  case Nil
  then have ts: "trim s = []" by (simp only: trim_def rev.simps dropWhile.simps)
  have "trim [] = []" by (simp add: trim_def)
  then show ?thesis by (simp only: ts)
next
  case (Cons x xs)
  then have x: "\<not> is_space x"
    by (simp add: dropWhile_eq_Cons_conv)
  have "dropWhile is_space (rev xs @ x # []) = dropWhile is_space (rev xs) @ x # []"
    using x by (rule dropWhile_append3)
  then have t: "trim s = x # rev (dropWhile is_space (rev xs))"
    by (simp add: trim_def Cons)
  have "dropWhile is_space (rev (x # rev (dropWhile is_space (rev xs)))) =
          dropWhile is_space (rev xs) @ [x]"
    using x by (simp add: dropWhile_append3)
  then show ?thesis
    unfolding t using x by (simp add: trim_def)
qed

lemma set_trim: "set (trim s) \<subseteq> set s"
  unfolding trim_def by (metis set_dropWhileD set_rev subsetI)

lemma is_space_equals: "\<not> is_space CHR ''=''"
  by (simp add: is_space_def)


lemma element_split_one:
  "CHR ''/'' \<notin> set k \<Longrightarrow> element (split CHR ''/'' k) 1 = None"
  by (simp add: split_no_separator)


lemma element_map: "element (map f xs) i = map_option f (element xs i)"
  by (induction xs i rule: element.induct) simp_all

lemma newKey_received_content_mic: "newKey ''received-content-mic'' = ''receivedContentMic''"
  by code_simp

section \<open>The loop over the modifiers\<close>








lemma part_key_no_equals: "CHR ''='' \<notin> set p \<Longrightarrow> part_key p = toLowerCase (trim p)"
  by (simp add: part_key_def indexOf_none)

lemma part_value_no_equals: "CHR ''='' \<notin> set p \<Longrightarrow> part_value p = []"
  by (simp add: part_value_def indexOf_none trim_def)

lemma part_key_equals:
  "CHR ''='' \<notin> set name \<Longrightarrow> part_key (name @ CHR ''='' # ws) = toLowerCase (trim name)"
  by (simp add: part_key_def indexOf_first)

lemma part_value_equals:
  "CHR ''='' \<notin> set name \<Longrightarrow> \<forall>x \<in> set ws. is_space x \<Longrightarrow> part_value (name @ CHR ''='' # ws) = []"
  by (simp add: part_value_def indexOf_first trim_spaces)

lemma disposition_part_cong:
  "part_key p = part_key q \<Longrightarrow> part_value p = part_value q \<Longrightarrow>
   disposition_part r p = disposition_part r q"
  by (simp add: disposition_part_def)

lemma attributes_list_None: "attributes r = None \<Longrightarrow> attributes_list r = []"
  by (simp add: attributes_list_def)

lemma toNotification_disposition:
  assumes "toLowerCase key = ''disposition''" and "map trim (split CHR '';'' val) = first # rest"
  shows "toNotification key val =
           Inr (''disposition'', Disposition (disposition_loop
             \<lparr>disp_value = element (split CHR ''/'' first) 1,
              disp_type = element (split CHR ''/'' first) 0,
              processed = None, description = None, attributes = None\<rparr> rest))"
proof -
  have "newKey key = ''disposition''"
    using assms(1) newKey_toLowerCase [of key] newKey_disposition by simp
  with assms show ?thesis
    by (simp add: toNotification_def Let_def)
qed


text \<open>
  What the loop leaves under a name is what was there before, or else the value of the
  first attribute of that name, unless every object inherits the name.
\<close>

lemma attributes_list_status:
  "is_status_part p \<Longrightarrow> attributes_list (disposition_part r p) = attributes_list r"
  by (simp add: is_status_part_def disposition_part_def attributes_list_def Let_def
      split: option.splits)

lemma assign_new:
  "is_undefined obj k \<Longrightarrow> assign obj k v = obj @ [(k, v)]"
  by (auto simp add: is_undefined_def assign_def object_prototype_names_def)

lemma attributes_list_attribute:
  "\<not> is_status_part p \<Longrightarrow>
   attributes_list (disposition_part r p) =
     (if is_undefined (attributes_list r) (part_key p)
      then attributes_list r @ [(part_key p, attribute_value p)]
      else attributes_list r)"
  by (simp add: is_status_part_def disposition_part_def attributes_list_def Let_def
      assign_new attribute_value_def)

lemma map_of_disposition_part:
  "map_of (attributes_list (disposition_part r p)) k =
     (case map_of (attributes_list r) k of
        Some v \<Rightarrow> Some v
      | None \<Rightarrow> if k \<in> set object_prototype_names then None else map_of (attribute_parts [p]) k)"
proof (cases "is_status_part p")
  case True
  then show ?thesis
    by (simp add: attributes_list_status attribute_parts_def split: option.splits)
next
  case False
  then show ?thesis
    by (auto simp add: attributes_list_attribute attribute_parts_def is_undefined_def
        map_add_def split: option.splits)
qed

lemma map_of_disposition_loop:
  "map_of (attributes_list (disposition_loop r parts)) k =
     (case map_of (attributes_list r) k of
        Some v \<Rightarrow> Some v
      | None \<Rightarrow> if k \<in> set object_prototype_names then None else map_of (attribute_parts parts) k)"
proof (induction parts arbitrary: r)
  case Nil
  then show ?case
    by (simp add: disposition_loop_def attribute_parts_def split: option.splits)
next
  case (Cons p ps)
  have step: "disposition_loop r (p # ps) = disposition_loop (disposition_part r p) ps"
    by (simp add: disposition_loop_def)
  have parts: "attribute_parts (p # ps) = attribute_parts [p] @ attribute_parts ps"
    by (simp add: attribute_parts_def)
  show ?case
    unfolding step Cons.IH map_of_disposition_part parts
    by (auto simp add: map_add_def attribute_parts_def split: option.splits)
qed

lemma distinct_disposition_part:
  "distinct (map fst (attributes_list r)) \<Longrightarrow> distinct (map fst (attributes_list (disposition_part r p)))"
  by (cases "is_status_part p")
     (auto simp add: attributes_list_status attributes_list_attribute is_undefined_def
        map_of_eq_None_iff)

lemma distinct_disposition_loop:
  "distinct (map fst (attributes_list r)) \<Longrightarrow> distinct (map fst (attributes_list (disposition_loop r parts)))"
  unfolding disposition_loop_def
  by (induction parts arbitrary: r) (simp_all add: distinct_disposition_part)

lemma no_empty_text_part:
  "(n, Text []) \<notin> set (attributes_list r) \<Longrightarrow> (n, Text []) \<notin> set (attributes_list (disposition_part r p))"
  by (cases "is_status_part p")
     (auto simp add: attributes_list_status attributes_list_attribute attribute_value_def)

lemma no_empty_text_loop:
  "(n, Text []) \<notin> set (attributes_list r) \<Longrightarrow> (n, Text []) \<notin> set (attributes_list (disposition_loop r parts))"
  unfolding disposition_loop_def
  by (induction parts arbitrary: r) (simp_all add: no_empty_text_part)

lemma map_of_first_occurrence:
  assumes "\<forall>q \<in> set before. is_status_part q \<or> part_key q \<noteq> part_key p"
    and "\<not> is_status_part p"
  shows "map_of (attribute_parts (before @ p # after)) (part_key p) = Some (attribute_value p)"
  using assms by (induction before) (auto simp add: attribute_parts_def)

lemma toNotification_disposition_stored:
  assumes "toLowerCase key = ''disposition''"
    and "map trim (split CHR '';'' val) = first # before @ p # after"
    and "\<not> is_status_part p"
    and "part_key p \<notin> set object_prototype_names"
    and "\<forall>q \<in> set before. is_status_part q \<or> part_key q \<noteq> part_key p"
  shows "\<exists>d. toNotification key val = Inr (''disposition'', Disposition d)
           \<and> map_of (attributes_list d) (part_key p) = Some (attribute_value p)
           \<and> distinct (map fst (attributes_list d))
           \<and> (\<forall>n. (n, Text []) \<notin> set (attributes_list d))"
proof -
  let ?r = "\<lparr>disp_value = element (split CHR ''/'' first) 1,
             disp_type = element (split CHR ''/'' first) 0,
             processed = None, description = None, attributes = None\<rparr>"
  let ?d = "disposition_loop ?r (before @ p # after)"
  have "toNotification key val = Inr (''disposition'', Disposition ?d)"
    using assms(1,2) by (rule toNotification_disposition)
  moreover have "map_of (attributes_list ?d) (part_key p) = Some (attribute_value p)"
    using assms(4) map_of_first_occurrence [OF assms(5) assms(3), of after]
    by (simp add: map_of_disposition_loop attributes_list_None)
  moreover have "distinct (map fst (attributes_list ?d))"
    by (rule distinct_disposition_loop) (simp add: attributes_list_None)
  moreover have "(n, Text []) \<notin> set (attributes_list ?d)" for n
    by (rule no_empty_text_loop) (simp add: attributes_list_None)
  ultimately show ?thesis by blast
qed

lemma no_empty_text_decoded:
  "toNotification key val = Inr (k, Disposition d) \<Longrightarrow> (n, Text []) \<notin> set (attributes_list d)"
proof -
  assume a: "toNotification key val = Inr (k, Disposition d)"
  then obtain r rest where "d = disposition_loop r rest" and "attributes r = None"
    by (auto simp add: toNotification_def Let_def split: if_splits option.splits)
  then show ?thesis
    using no_empty_text_loop [of n r rest] by (simp add: attributes_list_None)
qed

lemma empty_value_segment:
  assumes "CHR ''='' \<notin> set name" and "\<forall>x \<in> set ws. is_space x"
  shows "part_key (trim (name @ CHR ''='' # ws)) = toLowerCase (trim name)"
    and "part_value (trim (name @ CHR ''='' # ws)) = []"
    and "part_key (trim name) = toLowerCase (trim name)"
    and "part_value (trim name) = []"
proof -
  have t: "trim (name @ CHR ''='' # ws) = dropWhile is_space name @ CHR ''='' # []"
    using trim_before_spaces [OF is_space_equals assms(2)] by simp
  have n: "CHR ''='' \<notin> set (dropWhile is_space name)"
    using assms(1) set_dropWhileD by fastforce
  have n': "CHR ''='' \<notin> set (trim name)"
    using assms(1) set_trim by fastforce
  show "part_key (trim (name @ CHR ''='' # ws)) = toLowerCase (trim name)"
    unfolding t using part_key_equals [OF n] by (simp add: trim_dropWhile)
  show "part_value (trim (name @ CHR ''='' # ws)) = []"
    unfolding t using part_value_equals [OF n, of "[]"] by simp
  show "part_key (trim name) = toLowerCase (trim name)"
    using part_key_no_equals [OF n'] by (simp add: trim_idem)
  show "part_value (trim name) = []"
    using n' by (rule part_value_no_equals)
qed

section \<open>Decoding the fields\<close>




text \<open>
  C7. Decoding a Received-Content-MIC field whose value has a comma yields as \<open>mic\<close> the
  text before the first comma, trimmed, and as \<open>algorithm\<close> the text after it, up to the
  next comma if there is one, trimmed and lower-cased; decoding a value with no comma
  throws (a \<open>TypeError\<close>, on the missing second part) and produces no record.
\<close>

theorem received_content_mic_decoding:
  assumes "toLowerCase key = ''received-content-mic''"
  shows "(val = a @ CHR '','' # b \<and> CHR '','' \<notin> set a \<longrightarrow>
            toNotification key val =
              Inr (''receivedContentMic'',
                   Mic (Some (trim a)) (toLowerCase (trim (takeWhile (\<lambda>c. c \<noteq> CHR '','') b)))))
         \<and> (CHR '','' \<notin> set val \<longrightarrow> toNotification key val = Inl TypeError)"
proof -
  have k: "newKey key = ''receivedContentMic''"
    using assms newKey_toLowerCase [of key] newKey_received_content_mic by simp
  have with_comma: "toNotification key val =
              Inr (''receivedContentMic'',
                   Mic (Some (trim a)) (toLowerCase (trim (takeWhile (\<lambda>c. c \<noteq> CHR '','') b))))"
    if "val = a @ CHR '','' # b \<and> CHR '','' \<notin> set a"
  proof -
    from that have s: "split CHR '','' val = a # split CHR '','' b"
      by (simp add: split_at_first)
    have "element (map trim (split CHR '','' val)) 1 = Some (trim (takeWhile (\<lambda>c. c \<noteq> CHR '','') b))"
      and "element (map trim (split CHR '','' val)) 0 = Some (trim a)"
      using s by (simp_all add: element_map split_takeWhile)
    with assms k show ?thesis
      by (simp add: toNotification_def Let_def)
  qed
  have without: "toNotification key val = Inl TypeError" if "CHR '','' \<notin> set val"
    using that assms by (simp add: toNotification_def Let_def split_no_separator)
  from with_comma without show ?thesis by blast
qed

theorem received_content_mic_decoding_witness:
  "toLowerCase ''Received-Content-MIC'' = ''received-content-mic''
   \<and> CHR '','' \<notin> set ''abcdef0123==''
   \<and> toNotification ''Received-Content-MIC'' ''abcdef0123==, SHA1''
       = Inr (''receivedContentMic'', Mic (Some ''abcdef0123=='') ''sha1'')
   \<and> toNotification ''Received-Content-MIC'' ''abcdef0123=='' = Inl TypeError"
proof -
  have e1: "toLowerCase ''Received-Content-MIC'' = ''received-content-mic''"
    and e2: "CHR '','' \<notin> set ''abcdef0123==''"
    and e3: "trim ''abcdef0123=='' = ''abcdef0123==''"
    and e4: "toLowerCase (trim (takeWhile (\<lambda>c. c \<noteq> CHR '','') '' SHA1'')) = ''sha1''"
    by code_simp+
  from received_content_mic_decoding [OF e1, of "''abcdef0123==, SHA1''" "''abcdef0123==''" "'' SHA1''"]
    received_content_mic_decoding [OF e1, of "''abcdef0123==''" "[]" "[]"]
    e1 e2 e3 e4
  show ?thesis by simp
qed

text \<open>A no-break space around the algorithm is trimmed as any other white space.\<close>

lemma received_content_mic_no_break_space:
  "toNotification ''Received-Content-MIC'' (''abc,'' @ [CHR 0xA0] @ ''SHA1'') =
     Inr (''receivedContentMic'', Mic (Some ''abc'') ''sha1'')"
  by code_simp

text \<open>
  C5, as the code has it. A field whose lower-cased name is not one of the recognised
  names is returned under the key \<open>headers\<close>, as an object with one property: the raw
  value under the field name exactly as it was given, neither lower-cased nor camel-cased.
  (Assigning to the name \<open>__proto__\<close> stores nothing; that name is left out.)
\<close>

theorem unrecognized_field_raw_name:
  assumes "toLowerCase key \<notin> set recognized_fields" and "key \<noteq> ''__proto__''"
  shows "toNotification key val = Inr (''headers'', Headers [(key, val)])"
  using assms by (simp add: toNotification_def recognized_fields_def assign_def Let_def)

theorem unrecognized_field_raw_name_witness:
  "toLowerCase ''X-Custom-Header'' \<notin> set recognized_fields
   \<and> ''X-Custom-Header'' \<noteq> ''__proto__''
   \<and> toNotification ''X-Custom-Header'' ''1'' = Inr (''headers'', Headers [(''X-Custom-Header'', ''1'')])"
proof -
  have e1: "toLowerCase ''X-Custom-Header'' \<notin> set recognized_fields"
    by code_simp
  have e2: "''X-Custom-Header'' \<noteq> ''__proto__''"
    by simp
  from unrecognized_field_raw_name [OF e1 e2, of "''1''"] e1 e2 show ?thesis by simp
qed

text \<open>
  C5, as the spec states it, fails: the field \<open>X-Custom-Header\<close> is stored under its own
  name and not under the camel-cased name \<open>xCustomHeader\<close>.
\<close>

theorem unrecognized_field_not_camel_cased:
  "toNotification ''X-Custom-Header'' ''1'' = Inr (''headers'', Headers [(''X-Custom-Header'', ''1'')])
   \<and> newKey ''X-Custom-Header'' = ''xCustomHeader''
   \<and> toNotification ''X-Custom-Header'' ''1''
       \<noteq> Inr (''headers'', Headers [(newKey ''X-Custom-Header'', ''1'')])"
  by code_simp

section \<open>The attributes of a Disposition field\<close>

text \<open>
  Among the modifiers whose name neither starts with \<open>processed\<close> nor with \<open>failed\<close>,
  and is not a name that every object inherits, the first one of each name is the one
  stored: whatever follows it, the attributes hold its value under its lower-cased name,
  every name is stored once, and when it has no \<open>=\<close> the value is \<open>true\<close>.
\<close>

lemma attributes_first_wins:
  assumes "toLowerCase key = ''disposition''"
    and "map trim (split CHR '';'' val) = first # before @ p # after"
    and "\<not> is_status_part p"
    and "part_key p \<notin> set object_prototype_names"
    and "\<forall>q \<in> set before. is_status_part q \<or> part_key q \<noteq> part_key p"
  shows "\<exists>d. toNotification key val = Inr (''disposition'', Disposition d)
           \<and> map_of (attributes_list d) (part_key p) = Some (attribute_value p)
           \<and> distinct (map fst (attributes_list d))
           \<and> (CHR ''='' \<notin> set p \<longrightarrow>
                part_key p = toLowerCase (trim p)
                \<and> map_of (attributes_list d) (toLowerCase (trim p)) = Some JsTrue)"
proof -
  from toNotification_disposition_stored [OF assms]
  obtain d where d: "toNotification key val = Inr (''disposition'', Disposition d)"
    "map_of (attributes_list d) (part_key p) = Some (attribute_value p)"
    "distinct (map fst (attributes_list d))"
    by blast
  have "part_key p = toLowerCase (trim p)
        \<and> map_of (attributes_list d) (toLowerCase (trim p)) = Some JsTrue"
    if "CHR ''='' \<notin> set p"
    using that d(2) by (simp add: part_key_no_equals part_value_no_equals attribute_value_def)
  with d show ?thesis by blast
qed

text \<open>
  C8. The first modifier of each attribute name is to be stored, as \<open>true\<close> when it has no
  value, and later ones of that name ignored. The code does so (\<open>Flag\<close> is stored as
  \<open>true\<close> and \<open>flag=late\<close> is ignored) except for a name that every object inherits:
  the test \<open>result.attributes[key] === undefined\<close> finds the inherited property, and the
  modifier \<open>constructor\<close> is not stored at all.
\<close>

theorem inherited_name_is_not_stored:
  "toNotification ''Disposition''
     ''automatic-action/MDN-sent-automatically; constructor; Flag; flag=late'' =
     Inr (''disposition'', Disposition
       \<lparr>disp_value = Some ''MDN-sent-automatically'', disp_type = Some ''automatic-action'',
        processed = None, description = None, attributes = Some [(''flag'', JsTrue)]\<rparr>)"
  by code_simp

text \<open>
  C10, as the code has it. A modifier \<open>name=\<close> with nothing but white space after the
  \<open>=\<close> is decoded exactly as the modifier \<open>name\<close>: the two field values decode to
  the same result. No attribute of a decoded field is ever the empty string. When the
  name neither starts with \<open>processed\<close> nor with \<open>failed\<close> and no earlier attribute has
  the name, the attributes hold \<open>true\<close> under the lower-cased name. (Names that every
  object inherits, such as \<open>constructor\<close>, are left out of the last part.)
\<close>

theorem disposition_empty_value_is_true:
  "(\<forall>n k d. toNotification key val = Inr (k, Disposition d) \<longrightarrow> (n, Text []) \<notin> set (attributes_list d))
   \<and> (toLowerCase key = ''disposition''
        \<and> split CHR '';'' val = first # before @ (name @ ''='' @ ws) # after
        \<and> CHR ''='' \<notin> set name \<and> (\<forall>x \<in> set ws. is_space x) \<longrightarrow>
        (\<forall>val'. split CHR '';'' val' = first # before @ name # after \<longrightarrow>
                 toNotification key val' = toNotification key val)
        \<and> (\<not> is_status_part name \<and> toLowerCase (trim name) \<notin> set object_prototype_names
            \<and> (\<forall>q \<in> set before. is_status_part (trim q) \<or> part_key (trim q) \<noteq> toLowerCase (trim name)) \<longrightarrow>
            (\<exists>d. toNotification key val = Inr (''disposition'', Disposition d)
               \<and> map_of (attributes_list d) (toLowerCase (trim name)) = Some JsTrue)))"
  (is "?never \<and> (?form \<longrightarrow> ?same \<and> (?eligible \<longrightarrow> ?stored))")
proof -
  have never: ?never
    using no_empty_text_decoded by blast
  have rest: "?same \<and> (?eligible \<longrightarrow> ?stored)" if form: ?form
  proof -
    let ?p = "trim (name @ CHR ''='' # ws)"
    from form have key: "toLowerCase key = ''disposition''"
      and sp: "split CHR '';'' val = first # before @ (name @ CHR ''='' # ws) # after"
      and ne: "CHR ''='' \<notin> set name" and ws: "\<forall>x \<in> set ws. is_space x"
      by simp_all
    note seg = empty_value_segment [OF ne ws]
    have m: "map trim (split CHR '';'' val) = trim first # map trim before @ ?p # map trim after"
      using sp by simp
    have same: ?same
    proof (intro allI impI)
      fix val' assume "split CHR '';'' val' = first # before @ name # after"
      then have m': "map trim (split CHR '';'' val') =
                       trim first # map trim before @ trim name # map trim after"
        by simp
      have "disposition_part r (trim name) = disposition_part r ?p" for r
        by (rule disposition_part_cong) (simp_all add: seg)
      then have "disposition_loop r (map trim before @ trim name # map trim after) =
                 disposition_loop r (map trim before @ ?p # map trim after)" for r
        by (simp add: disposition_loop_def)
      then show "toNotification key val' = toNotification key val"
        using toNotification_disposition [OF key m] toNotification_disposition [OF key m'] by simp
    qed
    have stored: ?stored if el: ?eligible
    proof -
      have "\<not> is_status_part ?p"
        using el by (simp add: is_status_part_def seg part_key_no_equals [OF ne])
      moreover have "part_key ?p \<notin> set object_prototype_names"
        using el by (simp add: seg)
      moreover have "\<forall>q \<in> set (map trim before). is_status_part q \<or> part_key q \<noteq> part_key ?p"
        using el by (simp add: seg)
      ultimately obtain d where "toNotification key val = Inr (''disposition'', Disposition d)"
        "map_of (attributes_list d) (part_key ?p) = Some (attribute_value ?p)"
        using toNotification_disposition_stored [OF key m] by blast
      then show ?thesis
        by (auto simp add: seg attribute_value_def)
    qed
    from same stored show ?thesis by blast
  qed
  from never rest show ?thesis by blast
qed

theorem disposition_empty_value_is_true_witness:
  "toLowerCase ''Disposition'' = ''disposition''
   \<and> split CHR '';'' ''automatic-action/MDN-sent-automatically; Flag=  ''
       = ''automatic-action/MDN-sent-automatically'' # [] @ ('' Flag'' @ ''='' @ ''  '') # []
   \<and> split CHR '';'' ''automatic-action/MDN-sent-automatically; Flag''
       = ''automatic-action/MDN-sent-automatically'' # [] @ '' Flag'' # []
   \<and> CHR ''='' \<notin> set '' Flag''
   \<and> toLowerCase (trim '' Flag'') \<notin> set object_prototype_names
   \<and> toNotification ''Disposition'' ''automatic-action/MDN-sent-automatically; Flag''
       = toNotification ''Disposition'' ''automatic-action/MDN-sent-automatically; Flag=  ''
   \<and> (\<exists>d. toNotification ''Disposition'' ''automatic-action/MDN-sent-automatically; Flag=  ''
             = Inr (''disposition'', Disposition d)
          \<and> map_of (attributes_list d) ''flag'' = Some JsTrue)"
proof -
  let ?v = "''automatic-action/MDN-sent-automatically; Flag=  ''"
  let ?v' = "''automatic-action/MDN-sent-automatically; Flag''"
  have e1: "toLowerCase ''Disposition'' = ''disposition''"
    and e2: "split CHR '';'' ?v
       = ''automatic-action/MDN-sent-automatically'' # [] @ ('' Flag'' @ ''='' @ ''  '') # []"
    and e3: "CHR ''='' \<notin> set '' Flag''"
    and e4: "\<forall>x \<in> set ''  ''. is_space x"
    and e5: "split CHR '';'' ?v' = ''automatic-action/MDN-sent-automatically'' # [] @ '' Flag'' # []"
    and e6: "\<not> is_status_part '' Flag''"
    and e7: "toLowerCase (trim '' Flag'') \<notin> set object_prototype_names"
    and e8: "\<forall>q \<in> set []. is_status_part (trim q) \<or> part_key (trim q) \<noteq> toLowerCase (trim '' Flag'')"
    and e9: "toLowerCase (trim '' Flag'') = ''flag''"
    by code_simp+
  have form: "toLowerCase ''Disposition'' = ''disposition''
        \<and> split CHR '';'' ?v
            = ''automatic-action/MDN-sent-automatically'' # [] @ ('' Flag'' @ ''='' @ ''  '') # []
        \<and> CHR ''='' \<notin> set '' Flag'' \<and> (\<forall>x \<in> set ''  ''. is_space x)"
    using e1 e2 e3 e4 by (intro conjI)
  note t = disposition_empty_value_is_true [of "''Disposition''" ?v
      "''automatic-action/MDN-sent-automatically''" "[]" "'' Flag''" "''  ''" "[]",
      THEN conjunct2, rule_format, OF form]
  have same: "toNotification ''Disposition'' ?v' = toNotification ''Disposition'' ?v"
    using t [THEN conjunct1, rule_format, OF e5] .
  have "\<exists>d. toNotification ''Disposition'' ?v = Inr (''disposition'', Disposition d)
          \<and> map_of (attributes_list d) (toLowerCase (trim '' Flag'')) = Some JsTrue"
    using t [THEN conjunct2] e6 e7 e8 by blast
  then have stored: "\<exists>d. toNotification ''Disposition'' ?v = Inr (''disposition'', Disposition d)
          \<and> map_of (attributes_list d) ''flag'' = Some JsTrue"
    by (simp only: e9)
  from e1 e2 e5 e3 e7 same stored show ?thesis by (intro conjI)
qed

text \<open>
  C10, as the spec states it, fails: in \<open>x=1; x=\<close> the second modifier has the form
  \<open>name=\<close>, and the attributes hold the text \<open>1\<close> under \<open>x\<close>, not \<open>true\<close>; and
  the modifier \<open>failed=\<close> sets \<open>processed\<close> and leaves the field without attributes.
\<close>

theorem later_empty_value_is_ignored:
  "toNotification ''Disposition'' ''automatic-action/MDN-sent-automatically; x=1; x='' =
     Inr (''disposition'', Disposition
       \<lparr>disp_value = Some ''MDN-sent-automatically'', disp_type = Some ''automatic-action'',
        processed = None, description = None, attributes = Some [(''x'', Text ''1'')]\<rparr>)
   \<and> map_of [(''x'', Text ''1'')] ''x'' \<noteq> Some JsTrue
   \<and> toNotification ''Disposition'' ''automatic-action/MDN-sent-automatically; failed='' =
     Inr (''disposition'', Disposition
       \<lparr>disp_value = Some ''MDN-sent-automatically'', disp_type = Some ''automatic-action'',
        processed = Some False, description = None, attributes = None\<rparr>)"
  by code_simp

text \<open>A value that is a no-break space is white space only, and the attribute is \<open>true\<close>.\<close>

lemma no_break_space_value_is_true:
  "toNotification ''Disposition'' (''automatic-action/MDN-sent-automatically; x='' @ [CHR 0xA0]) =
     Inr (''disposition'', Disposition
       \<lparr>disp_value = Some ''MDN-sent-automatically'', disp_type = Some ''automatic-action'',
        processed = None, description = None, attributes = Some [(''x'', JsTrue)]\<rparr>)"
  by code_simp

text \<open>Names are lower-cased beyond ASCII: a capital E with acute repeats the small one.\<close>

lemma latin_capital_name_is_a_duplicate:
  "toNotification ''Disposition''
     (''automatic-action/MDN-sent-automatically; '' @ [CHR 0xE9] @ ''=1; '' @ [CHR 0xC9] @ ''=2'') =
     Inr (''disposition'', Disposition
       \<lparr>disp_value = Some ''MDN-sent-automatically'', disp_type = Some ''automatic-action'',
        processed = None, description = None, attributes = Some [([CHR 0xE9], Text ''1'')]\<rparr>)"
  by code_simp

section \<open>The constructor of the report\<close>

lemma getReportNode_None:
  "(\<forall>x \<in> set (nodes_of n). \<not> is_report x) \<Longrightarrow> getReportNode n = None"
  "(\<forall>x \<in> set (nodes_of_list ns). \<not> is_report x) \<Longrightarrow> getReportNodes ns = None"
  by (induction n and ns rule: getReportNode_getReportNodes.induct) simp_all

text \<open>
  C9, as the code has it. Constructing the report from a node whose tree has no
  \<open>multipart/report\<close> node does not throw and leaves \<open>messageId\<close>, \<open>explanation\<close>,
  \<open>notification\<close> and \<open>returned\<close> undefined. Called with a plain options object, the
  constructor throws exactly when the explanation is missing or empty or the notification
  is missing.
\<close>

theorem constructor_without_report:
  "((\<forall>x \<in> set (nodes_of n). \<not> is_report x) \<longrightarrow>
      AS2Disposition_new H (Some (Node n)) =
        Inr \<lparr>messageId = None, explanation = None, notification = None, returned = None\<rparr>)
   \<and> ((\<exists>e. AS2Disposition_new H (Some (Options opts)) = Inl e) \<longleftrightarrow>
        (opt_explanation opts = None \<or> opt_explanation opts = Some [] \<or> opt_notification opts = None))"
proof -
  have "AS2Disposition_new H (Some (Node n)) =
        Inr \<lparr>messageId = None, explanation = None, notification = None, returned = None\<rparr>"
    if "\<forall>x \<in> set (nodes_of n). \<not> is_report x"
    using getReportNode_None(1) [OF that] by (simp add: AS2Disposition_new_def)
  moreover have "(\<exists>e. AS2Disposition_new H (Some (Options opts)) = Inl e) \<longleftrightarrow>
        (opt_explanation opts = None \<or> opt_explanation opts = Some [] \<or> opt_notification opts = None)"
    by (auto simp add: AS2Disposition_new_def split: option.splits list.splits)
  ultimately show ?thesis by blast
qed

theorem constructor_without_report_witness:
  "nodes_of example_message = [example_message]
   \<and> \<not> is_report example_message
   \<and> AS2Disposition_new example_helpers (Some (Node example_message)) =
        Inr \<lparr>messageId = None, explanation = None, notification = None, returned = None\<rparr>
   \<and> (\<exists>e. AS2Disposition_new example_helpers (Some (Options
          \<lparr>opt_explanation = Some [], opt_notification = None, opt_returned = None\<rparr>)) = Inl e)"
proof -
  have e1: "nodes_of example_message = [example_message]"
    and e2: "\<not> is_report example_message"
    by code_simp+
  from constructor_without_report [of example_message example_helpers
      "\<lparr>opt_explanation = Some [], opt_notification = None, opt_returned = None\<rparr>"] e1 e2
  show ?thesis by simp
qed

text \<open>
  C9, as stated, fails in its last part: the constructor also throws when it is called
  with no argument, and when it is called with a node whose report, of the content type
  that \<open>toMimeNode\<close> writes, has no child parts: the first child is read without a check.
\<close>

theorem constructor_throws_without_options:
  "AS2Disposition_new example_helpers None = Inl TypeError
   \<and> AS2Disposition_new example_helpers
     (Some (Node (AS2MimeNode ''multipart/report; report-type=disposition-notification''
        (Some ''<2@example>'') [] [] []))) = Inl TypeError"
  by code_simp

text \<open>
  It throws as well when a field of the report cannot be decoded, and otherwise returns
  the decoded report.
\<close>

lemma constructor_throws_on_undecodable_field:
  "AS2Disposition_new example_helpers
     (Some (Node (AS2MimeNode ''multipart/report; report-type=disposition-notification''
        (Some ''<2@example>'') [] []
        [AS2MimeNode ''text/plain'' None [] ''The message was processed.'' [],
         AS2MimeNode ''message/disposition-notification'' None []
           ''Received-Content-MIC: abcdef0123=='' []]))) = Inl TypeError"
  by code_simp

lemma constructor_decodes_report:
  "AS2Disposition_new example_helpers
     (Some (Node (AS2MimeNode ''multipart/report; report-type=disposition-notification''
        (Some ''<2@example>'') [] []
        [AS2MimeNode ''text/plain'' None [] ''The message was processed. '' [],
         AS2MimeNode ''message/disposition-notification'' None []
           ''Received-Content-MIC: abcdef0123==, sha1'' []]))) =
   Inr \<lparr>messageId = Some ''<2@example>'', explanation = Some ''The message was processed.'',
        notification = Some (Incoming [(''receivedContentMic'', Mic (Some ''abcdef0123=='') ''sha1'')]),
        returned = None\<rparr>"
  by code_simp

end
